theory Spec2Isabelle
  imports Complex_Main
begin

section \<open>The class SIRModel of SIRClass.py\<close>

text \<open>
  The module defines one class, \<^verbatim>\<open>SIRModel\<close>, with a constructor and four methods:
  \<^verbatim>\<open>sir_equations\<close>, \<^verbatim>\<open>simulate\<close>, \<^verbatim>\<open>plot_results\<close> and
  \<^verbatim>\<open>plot_phase_portrait\<close>.

  Numbers are modelled as \<^typ>\<open>real\<close>. This is exact for Python's unbounded integers and
  for fractions; for Python floats it is the usual idealisation: the rounding of
  every floating-point operation is left out, and so are the non-finite values
  (infinities and NaN). Every statement below is about the arithmetic the source
  writes down, not about its rounding.

  A method call either returns or raises. A raise is a value of \<open>error\<close> on the left of
  a sum; the instance survives a raise, so a method that assigns to \<^verbatim>\<open>self\<close>
  returns the instance after the call next to its outcome.
\<close>

datatype error = ValueError | AttributeError | NumericalFailure

text \<open>
  \<open>ValueError\<close> is what Python raises when a sequence is unpacked into the wrong number
  of names, \<open>AttributeError\<close> what it raises when an attribute is read that was never
  assigned. \<open>NumericalFailure\<close> stands for an exception the ODE solver raises on its own
  account.

  The instance: \<^verbatim>\<open>beta\<close>, \<^verbatim>\<open>gamma\<close> and \<^verbatim>\<open>initial_conditions\<close> are assigned by the
  constructor. \<^verbatim>\<open>results\<close> is assigned by \<^verbatim>\<open>simulate\<close> only, so the attribute
  does not exist before the first successful call: \<open>None\<close>. The trajectory is the
  two-dimensional array the solver returns, kept as the list of its rows.
\<close>

record SIRModel =
  beta :: real
  gamma :: real
  initial_conditions :: "real list"
  results :: "real list list option"

text \<open>
  \<^verbatim>\<open>
  def __init__(self, beta, gamma, initial_conditions):
      self.beta = beta
      self.gamma = gamma
      self.initial_conditions = initial_conditions
  \<close>
  The constructor has three assignments and no check, so it has no raising branch;
  its result is a sum all the same, to say so in a statement.
\<close>

definition SIRModel_init :: "real \<Rightarrow> real \<Rightarrow> real list \<Rightarrow> error + SIRModel" where
  "SIRModel_init b g ic =
     Inr \<lparr>beta = b, gamma = g, initial_conditions = ic, results = None\<rparr>"

text \<open>
  \<^verbatim>\<open>
  def sir_equations(self, y, t):
      S, I, R = y
      dSdt = -self.beta * S * I
      dIdt = self.beta * S * I - self.gamma * I
      dRdt = self.gamma * I
      return [dSdt, dIdt, dRdt]
  \<close>
  The unpacking \<^verbatim>\<open>S, I, R = y\<close> raises ValueError unless \<^verbatim>\<open>y\<close> has exactly three
  items. Python reads \<^verbatim>\<open>-self.beta * S * I\<close> as \<open>((- beta) * S) * I\<close>, and so does
  Isabelle. The method assigns nothing to \<^verbatim>\<open>self\<close> and does not read \<^verbatim>\<open>t\<close>.
\<close>

definition sir_equations :: "SIRModel \<Rightarrow> real list \<Rightarrow> real \<Rightarrow> error + real list" where
  "sir_equations self y t =
     (case y of
        [S, I, R] \<Rightarrow>
          (let dSdt = - beta self * S * I;
               dIdt = beta self * S * I - gamma self * I;
               dRdt = gamma self * I
           in Inr [dSdt, dIdt, dRdt])
      | _ \<Rightarrow> Inl ValueError)"

subsection \<open>The solver\<close>

text \<open>
  \<^verbatim>\<open>simulate\<close> calls \<^verbatim>\<open>scipy.integrate.odeint\<close>, which is not part of the repository.
  It is a parameter of the model: a function from the vector field (a callback that
  may raise), the initial state and the time points to a raised error or the array of
  states, one row per time point.
\<close>

type_synonym vector_field = "real list \<Rightarrow> real \<Rightarrow> error + real list"

type_synonym integrator =
  "vector_field \<Rightarrow> real list \<Rightarrow> real list \<Rightarrow> error + real list list"

text \<open>
  \<^verbatim>\<open>
  def simulate(self, t):
      self.results = odeint(self.sir_equations, self.initial_conditions, t)
  \<close>
  There is no handler around the call: when the solver raises, the assignment does not
  happen and the exception leaves \<^verbatim>\<open>simulate\<close>. When it returns, whatever it returned
  is stored. The method returns \<^verbatim>\<open>None\<close>.
\<close>

definition simulate :: "integrator \<Rightarrow> SIRModel \<Rightarrow> real list \<Rightarrow> (error + unit) \<times> SIRModel" where
  "simulate odeint self t =
     (case odeint (sir_equations self) (initial_conditions self) t of
        Inl e \<Rightarrow> (Inl e, self)
      | Inr traj \<Rightarrow> (Inr (), self\<lparr>results := Some traj\<rparr>))"

subsection \<open>The plotting methods\<close>

text \<open>
  Both plotting methods read \<^verbatim>\<open>self.results.T\<close> and unpack it into three names; then
  they hand sequences and labels to matplotlib. The model returns what is handed over
  as a \<open>figure\<close>; what matplotlib does with it (drawing, and rejecting an x and a y
  sequence of different lengths) is outside the model.

  The transpose of an array of shape (n, k) has k rows, so the unpacking into three
  names needs k = 3. An array is kept as its rows, all of one length; the columns of
  an array with three entries per row are read off by index.
\<close>

record figure =
  figsize :: "nat \<times> nat"
  lines :: "(real list \<times> real list \<times> string) list"
  xlabel :: string
  ylabel :: string
  title :: string

definition unpack_T :: "real list list \<Rightarrow> error + real list \<times> real list \<times> real list" where
  "unpack_T a =
     (if list_all (\<lambda>row. length row = 3) a
      then Inr (map (\<lambda>row. row ! 0) a, map (\<lambda>row. row ! 1) a, map (\<lambda>row. row ! 2) a)
      else Inl ValueError)"

text \<open>
  \<^verbatim>\<open>
  def plot_results(self, t):
      S, I, R = self.results.T
      plt.figure(figsize=(10, 6))
      plt.plot(t, S, label='Susceptible')
      plt.plot(t, I, label='Infected')
      plt.plot(t, R, label='Recovered')
      plt.xlabel('Time')
      plt.ylabel('Proportion of Population')
      plt.title('SIR Model')
      plt.legend()
      plt.show()
  \<close>
\<close>

definition plot_results :: "SIRModel \<Rightarrow> real list \<Rightarrow> error + figure" where
  "plot_results self t =
     (case results self of
        None \<Rightarrow> Inl AttributeError
      | Some a \<Rightarrow>
          (case unpack_T a of
             Inl e \<Rightarrow> Inl e
           | Inr (S, I, R) \<Rightarrow>
               Inr \<lparr>figsize = (10, 6),
                    lines = [(t, S, ''Susceptible''), (t, I, ''Infected''), (t, R, ''Recovered'')],
                    xlabel = ''Time'',
                    ylabel = ''Proportion of Population'',
                    title = ''SIR Model''\<rparr>))"

text \<open>
  \<^verbatim>\<open>
  def plot_phase_portrait(self):
      S, I, _ = self.results.T
      plt.figure(figsize=(10, 6))
      plt.plot(S, I, label='Phase Portrait')
      plt.xlabel('Susceptible')
      plt.ylabel('Infected')
      plt.title('Phase Portrait of SIR Model')
      plt.legend()
      plt.show()
  \<close>
\<close>

definition plot_phase_portrait :: "SIRModel \<Rightarrow> error + figure" where
  "plot_phase_portrait self =
     (case results self of
        None \<Rightarrow> Inl AttributeError
      | Some a \<Rightarrow>
          (case unpack_T a of
             Inl e \<Rightarrow> Inl e
           | Inr (S, I, R) \<Rightarrow>
               Inr \<lparr>figsize = (10, 6),
                    lines = [(S, I, ''Phase Portrait'')],
                    xlabel = ''Susceptible'',
                    ylabel = ''Infected'',
                    title = ''Phase Portrait of SIR Model''\<rparr>))"

subsection \<open>Calls on an instance\<close>

text \<open>
  The four methods as one operation on the instance: the outcome of a call and the
  instance after it. Only \<^verbatim>\<open>simulate\<close> contains an assignment to \<^verbatim>\<open>self\<close>; the
  other three leave the instance as it was, whether they return or raise.
\<close>

datatype call =
  Sir_equations "real list" real
  | Simulate "real list"
  | Plot_results "real list"
  | Plot_phase_portrait

datatype retval = Ret_derivatives "real list" | Ret_None | Ret_figure figure

fun exec :: "integrator \<Rightarrow> SIRModel \<Rightarrow> call \<Rightarrow> (error + retval) \<times> SIRModel" where
  "exec odeint self (Sir_equations y t) =
     (map_sum id Ret_derivatives (sir_equations self y t), self)"
| "exec odeint self (Simulate t) =
     (case simulate odeint self t of (r, self') \<Rightarrow> (map_sum id (\<lambda>_. Ret_None) r, self'))"
| "exec odeint self (Plot_results t) =
     (map_sum id Ret_figure (plot_results self t), self)"
| "exec odeint self Plot_phase_portrait =
     (map_sum id Ret_figure (plot_phase_portrait self), self)"

text \<open>
  A client makes calls one after another on the same instance, going on after a call
  that raised. \<open>run\<close> is the instance after a history of calls;
  \<open>simulate_succeeded\<close> says whether some \<^verbatim>\<open>simulate\<close> of the history returned.
\<close>

fun run :: "integrator \<Rightarrow> SIRModel \<Rightarrow> call list \<Rightarrow> SIRModel" where
  "run odeint self [] = self"
| "run odeint self (c # cs) = run odeint (snd (exec odeint self c)) cs"

fun simulate_succeeded :: "integrator \<Rightarrow> SIRModel \<Rightarrow> call list \<Rightarrow> bool" where
  "simulate_succeeded odeint self [] = False"
| "simulate_succeeded odeint self (c # cs) =
     ((case c of Simulate t \<Rightarrow> \<not> isl (fst (simulate odeint self t)) | _ \<Rightarrow> False)
      \<or> simulate_succeeded odeint (snd (exec odeint self c)) cs)"

subsection \<open>A fixed-step integrator for the examples\<close>

text \<open>
  To run the model on concrete inputs the solver parameter needs a value. The explicit
  Euler method stands in for it in the examples: the first row is the initial state,
  each further row adds the step times the vector field at the row before, and an
  exception of the callback leaves the solver as it is. It is not the repository's
  solver and no general statement below depends on it.
\<close>

fun euler_steps :: "vector_field \<Rightarrow> real list \<Rightarrow> real \<Rightarrow> real list \<Rightarrow> error + real list list" where
  "euler_steps f y t0 [] = Inr []"
| "euler_steps f y t0 (t1 # ts) =
     (case f y t0 of
        Inl e \<Rightarrow> Inl e
      | Inr dy \<Rightarrow>
          (case euler_steps f (map2 (\<lambda>a d. a + (t1 - t0) * d) y dy) t1 ts of
             Inl e \<Rightarrow> Inl e
           | Inr rest \<Rightarrow> Inr (map2 (\<lambda>a d. a + (t1 - t0) * d) y dy # rest)))"

definition euler :: integrator where
  "euler f y0 t =
     (case t of
        [] \<Rightarrow> Inr []
      | t0 # ts \<Rightarrow>
          (case euler_steps f y0 t0 ts of
             Inl e \<Rightarrow> Inl e
           | Inr rest \<Rightarrow> Inr (y0 # rest)))"

text \<open>A solver that gives up on every problem, for the examples of a failed call.\<close>

definition failing_solver :: integrator where
  "failing_solver f y0 t = Inl NumericalFailure"

subsection \<open>Trajectories of the system\<close>

text \<open>
  The vector field is what \<^verbatim>\<open>sir_equations\<close> computes; a trajectory of the system is
  three differentiable functions of time whose derivatives at t are the three numbers
  the method returns at the state they pass through at t. This is the exact solution
  the solver approximates; it is used to say what the sign of a component of the field
  means for the course of an epidemic.
\<close>

definition solves_sir :: "SIRModel \<Rightarrow> (real \<Rightarrow> real) \<Rightarrow> (real \<Rightarrow> real) \<Rightarrow> (real \<Rightarrow> real) \<Rightarrow> real \<Rightarrow> bool" where
  "solves_sir self susceptible infected recovered t \<longleftrightarrow>
     (\<exists>dS dI dR. sir_equations self [susceptible t, infected t, recovered t] t = Inr [dS, dI, dR] \<and>
        (susceptible has_real_derivative dS) (at t) \<and>
        (infected has_real_derivative dI) (at t) \<and>
        (recovered has_real_derivative dR) (at t))"

subsection \<open>What the solver promises\<close>

text \<open>
  Modelled from the spec: the solver \<^verbatim>\<open>odeint\<close> of scipy, which the repository calls
  and does not contain. The spec's integrator driver, given an ordered sequence of time
  points (length at least 1, strictly increasing), "produces one state vector per time
  point", and the initial conditions "become the first point of the trajectory". The
  method of integration is not prescribed, so the solver stays a parameter and this
  predicate says which parameters are solvers in the spec's sense.
\<close>

definition odeint_contract :: "integrator \<Rightarrow> bool" where
  "odeint_contract odeint \<longleftrightarrow>
     (\<forall>f y0 t traj. t \<noteq> [] \<and> sorted_wrt (<) t \<and> odeint f y0 t = Inr traj \<longrightarrow>
        length traj = length t \<and> hd traj = y0)"

section \<open>Properties\<close>

subsection \<open>Shared facts about the methods\<close>

lemma sir_equations_three:
  "sir_equations self [S, I, R] t =
     Inr [- (beta self * S * I), beta self * S * I - gamma self * I, gamma self * I]"
  by (simp add: sir_equations_def)

lemma sir_equations_other_length:
  "length y \<noteq> 3 \<Longrightarrow> sir_equations self y t = Inl ValueError"
  by (auto simp: sir_equations_def split: list.splits)

lemma length_three: "length y = 3 \<Longrightarrow> \<exists>S I R. y = [S, I, R]"
  by (auto simp: length_Suc_conv numeral_3_eq_3)

lemma sir_equations_ignores_results:
  "sir_equations (self\<lparr>results := r\<rparr>) = sir_equations self"
  by (intro ext) (simp add: sir_equations_def split: list.splits)

lemma exec_fields:
  "beta (snd (exec odeint self c)) = beta self"
  "gamma (snd (exec odeint self c)) = gamma self"
  "initial_conditions (snd (exec odeint self c)) = initial_conditions self"
  by (cases c; simp add: simulate_def split: sum.splits prod.splits)+

lemma run_fields:
  "beta (run odeint self cs) = beta self \<and> gamma (run odeint self cs) = gamma self \<and>
   initial_conditions (run odeint self cs) = initial_conditions self"
  by (induction cs arbitrary: self) (simp_all add: exec_fields)

lemma results_run_None:
  "results self = None \<Longrightarrow> \<not> simulate_succeeded odeint self cs \<Longrightarrow>
   results (run odeint self cs) = None"
proof (induction cs arbitrary: self)
  case Nil
  then show ?case by simp
next
  case (Cons c cs)
  have "results (snd (exec odeint self c)) = None"
    using Cons.prems by (cases c) (auto simp: simulate_def split: sum.splits)
  moreover have "\<not> simulate_succeeded odeint (snd (exec odeint self c)) cs"
    using Cons.prems by simp
  ultimately show ?case using Cons.IH by simp
qed

lemma simulate_only_results:
  "\<exists>r. snd (simulate odeint self t) = self\<lparr>results := r\<rparr>"
proof (cases "odeint (sir_equations self) (initial_conditions self) t")
  case (Inl e)
  then have "snd (simulate odeint self t) = self\<lparr>results := results self\<rparr>"
    by (simp add: simulate_def)
  then show ?thesis ..
next
  case (Inr traj)
  then have "snd (simulate odeint self t) = self\<lparr>results := Some traj\<rparr>"
    by (simp add: simulate_def)
  then show ?thesis ..
qed

lemma simulate_replaces:
  assumes "odeint (sir_equations self) (initial_conditions self) t = Inr traj"
  shows "simulate odeint (self\<lparr>results := old\<rparr>) t = (Inr (), self\<lparr>results := Some traj\<rparr>)"
  using assms by (simp add: simulate_def sir_equations_ignores_results)

text \<open>The stand-in integrator keeps the solver's promise.\<close>

lemma euler_steps_length:
  "euler_steps f y t0 ts = Inr rest \<Longrightarrow> length rest = length ts"
proof (induction ts arbitrary: y t0 rest)
  case Nil
  then show ?case by simp
next
  case (Cons t1 ts)
  then show ?case by (auto split: sum.splits)
qed

lemma euler_contract: "odeint_contract euler"
  by (auto simp: odeint_contract_def euler_def split: list.splits sum.splits dest: euler_steps_length)

subsection \<open>The vector field\<close>

text \<open>
  Claim C1. For every state (S, I, R) and every time t, \<^verbatim>\<open>sir_equations\<close> returns
  exactly the triple (-\<beta> S I, \<beta> S I - \<gamma> I, \<gamma> I), where \<beta> and \<gamma> are the parameters
  stored at construction: on the instance the constructor made from \<open>b\<close> and \<open>g\<close>, and
  after any history of calls on it, the method returns the triple written with \<open>b\<close>
  and \<open>g\<close>, whatever t is.
\<close>

theorem sir_equations_derivative_triple:
  assumes "SIRModel_init b g ic = Inr self"
  shows "sir_equations (run odeint self cs) [S, I, R] t =
           Inr [- (b * S * I), b * S * I - g * I, g * I]"
proof -
  have "beta self = b" and "gamma self = g"
    using assms by (auto simp: SIRModel_init_def)
  then have "beta (run odeint self cs) = b" and "gamma (run odeint self cs) = g"
    using run_fields [of odeint self cs] by simp_all
  then show ?thesis by (simp add: sir_equations_three)
qed

theorem sir_equations_derivative_triple_witness:
  "sir_equations
     (run euler \<lparr>beta = 2, gamma = 1, initial_conditions = [1/2, 1/2, 0], results = None\<rparr>
        [Simulate [0, 1]])
     [1/2, 1/4, 1/4] 7 = Inr [- (1/4), 0, 1/4]"
proof -
  have "SIRModel_init 2 1 [1/2, 1/2, 0] =
          Inr \<lparr>beta = 2, gamma = 1, initial_conditions = [1/2, 1/2, 0], results = None\<rparr>"
    by (simp add: SIRModel_init_def)
  from sir_equations_derivative_triple
         [OF this, of euler "[Simulate [0, 1]]" "1/2" "1/4" "1/4" 7]
  show ?thesis by simp
qed



subsection \<open>The epidemic threshold\<close>

lemma dIdt_nonpos:
  fixes b g S I :: real
  assumes "0 < b" and "0 \<le> I" and "S \<le> g / b"
  shows "b * S * I - g * I \<le> 0"
proof -
  have "b * S \<le> g" using assms(1,3) by (simp add: pos_le_divide_eq mult.commute)
  then have "(b * S - g) * I \<le> 0" using assms(2) by (simp add: mult_nonpos_nonneg)
  then show ?thesis by (simp add: algebra_simps)
qed

lemma solves_sir_infected:
  "solves_sir self susceptible infected recovered t \<Longrightarrow>
   (infected has_real_derivative (beta self * susceptible t * infected t - gamma self * infected t)) (at t)"
  by (auto simp: solves_sir_def sir_equations_three)

text \<open>
  Claim C5. For \<beta> > 0, \<gamma> \<ge> 0 and any state with I \<ge> 0, whenever S \<le> \<gamma>/\<beta> the
  I-component of the vector field is \<le> 0; so I(t) is non-increasing whenever
  S(t) \<le> \<gamma>/\<beta>. The first conjunct is the statement about the field at a state. The
  second is its consequence for a trajectory of the system: over an interval on which
  the infected stay non-negative and the susceptible stay at or below \<gamma>/\<beta>, the
  infected at the end are at most the infected at the start. The sign of \<gamma> is a
  hypothesis of the claim; the proof does not need it.
\<close>

theorem epidemic_threshold:
  assumes "0 < beta self" and "0 \<le> gamma self"
  shows "(\<forall>S I R t. 0 \<le> I \<and> S \<le> gamma self / beta self \<longrightarrow>
            (\<exists>dS dI dR. sir_equations self [S, I, R] t = Inr [dS, dI, dR] \<and> dI \<le> 0))
       \<and> (\<forall>susceptible infected recovered a b.
            a \<le> b \<and>
            (\<forall>t. a \<le> t \<and> t \<le> b \<longrightarrow>
               solves_sir self susceptible infected recovered t \<and> 0 \<le> infected t \<and> susceptible t \<le> gamma self / beta self)
            \<longrightarrow> infected b \<le> infected a)"
proof (intro conjI allI impI)
  fix S I R t :: real
  assume "0 \<le> I \<and> S \<le> gamma self / beta self"
  then have i: "0 \<le> I" and le: "S \<le> gamma self / beta self"
    by simp_all
  have "beta self * S * I - gamma self * I \<le> 0"
    using assms(1) i le by (rule dIdt_nonpos)
  then show "\<exists>dS dI dR. sir_equations self [S, I, R] t = Inr [dS, dI, dR] \<and> dI \<le> 0"
    by (simp add: sir_equations_three)
next
  fix susceptible infected recovered :: "real \<Rightarrow> real" and a b :: real
  assume h: "a \<le> b \<and>
    (\<forall>t. a \<le> t \<and> t \<le> b \<longrightarrow>
       solves_sir self susceptible infected recovered t \<and> 0 \<le> infected t \<and> susceptible t \<le> gamma self / beta self)"
  have "\<exists>d. (infected has_real_derivative d) (at t) \<and> d \<le> 0" if "a \<le> t" and "t \<le> b" for t
  proof -
    from h that have s: "solves_sir self susceptible infected recovered t"
      and i: "0 \<le> infected t" and le: "susceptible t \<le> gamma self / beta self"
      by simp_all
    have "beta self * susceptible t * infected t - gamma self * infected t \<le> 0"
      using assms(1) i le by (rule dIdt_nonpos)
    with solves_sir_infected [OF s] show ?thesis by blast
  qed
  then have "\<And>t. a \<le> t \<Longrightarrow> t \<le> b \<Longrightarrow> \<exists>d. (infected has_real_derivative d) (at t) \<and> d \<le> 0"
    by blast
  moreover have "a \<le> b" using h by simp
  ultimately show "infected b \<le> infected a"
    by (rule DERIV_nonpos_imp_nonincreasing [rotated])
qed

theorem epidemic_threshold_witness:
  "(\<exists>dS dI dR.
      sir_equations \<lparr>beta = 1, gamma = 1, initial_conditions = [0, 1, 0], results = None\<rparr>
        [1/2, 1/4, 1/4] 0 = Inr [dS, dI, dR] \<and> dI \<le> 0)
   \<and> exp (- 1) \<le> exp (0::real)"
proof -
  define m where "m = \<lparr>beta = 1, gamma = 1, initial_conditions = [0, 1, 0], results = None\<rparr>"
  have pos: "0 < beta m" and nonneg: "0 \<le> gamma m"
    by (simp_all add: m_def)
  note th = epidemic_threshold [OF pos nonneg]
  have first: "\<exists>dS dI dR. sir_equations m [1/2, 1/4, 1/4] 0 = Inr [dS, dI, dR] \<and> dI \<le> 0"
    using th by (simp add: m_def)
  have sol: "solves_sir m (\<lambda>t. 0) (\<lambda>t. exp (- t)) (\<lambda>t. 1 - exp (- t)) t" for t
    unfolding solves_sir_def sir_equations_three
    by (auto simp: m_def intro!: derivative_eq_intros)
  have "(\<lambda>t. exp (- t)) 1 \<le> (\<lambda>t. exp (- t)) (0::real)"
    using th sol by (simp add: m_def)
  with first show ?thesis by (simp add: m_def)
qed

subsection \<open>The shape of the state\<close>

text \<open>
  Claim C10. \<^verbatim>\<open>sir_equations\<close> requires a state of exactly three components: the
  unpacking fails for a state of any other length; for a state of three components and
  any t the call returns a list of three numbers, does not raise, and leaves the
  instance as it was. The call is taken through \<open>exec\<close>, which gives the instance
  after it.
\<close>

theorem sir_equations_three_components:
  "(length y \<noteq> 3 \<longrightarrow> exec odeint self (Sir_equations y t) = (Inl ValueError, self))
   \<and> (length y = 3 \<longrightarrow>
        (\<exists>ds. exec odeint self (Sir_equations y t) = (Inr (Ret_derivatives ds), self)
           \<and> length ds = 3))"
proof (intro conjI impI)
  assume "length y \<noteq> 3"
  then show "exec odeint self (Sir_equations y t) = (Inl ValueError, self)"
    by (simp add: sir_equations_other_length)
next
  assume "length y = 3"
  then obtain S I R where "y = [S, I, R]"
    using length_three by blast
  then show "\<exists>ds. exec odeint self (Sir_equations y t) = (Inr (Ret_derivatives ds), self)
           \<and> length ds = 3"
    by (simp add: sir_equations_three)
qed

theorem sir_equations_three_components_witness:
  "exec euler \<lparr>beta = 2, gamma = 1, initial_conditions = [1/2, 1/2, 0], results = None\<rparr>
     (Sir_equations [1/2, 1/2] 0)
     = (Inl ValueError, \<lparr>beta = 2, gamma = 1, initial_conditions = [1/2, 1/2, 0], results = None\<rparr>)
   \<and> (\<exists>ds. exec euler \<lparr>beta = 2, gamma = 1, initial_conditions = [1/2, 1/2, 0], results = None\<rparr>
         (Sir_equations [1/2, 1/2, 0] 0)
         = (Inr (Ret_derivatives ds),
            \<lparr>beta = 2, gamma = 1, initial_conditions = [1/2, 1/2, 0], results = None\<rparr>)
       \<and> length ds = 3)"
  using sir_equations_three_components
          [of "[1/2, 1/2]" euler
              "\<lparr>beta = 2, gamma = 1, initial_conditions = [1/2, 1/2, 0], results = None\<rparr>" 0]
        sir_equations_three_components
          [of "[1/2, 1/2, 0]" euler
              "\<lparr>beta = 2, gamma = 1, initial_conditions = [1/2, 1/2, 0], results = None\<rparr>" 0]
  by simp

subsection \<open>Construction\<close>




subsection \<open>The life cycle of the trajectory\<close>

text \<open>
  Claim C6. On an instance on which \<^verbatim>\<open>simulate\<close> has not yet returned successfully,
  each trajectory accessor (\<^verbatim>\<open>plot_results\<close> and \<^verbatim>\<open>plot_phase_portrait\<close>) fails
  explicitly instead of returning a default, empty, stale or zeroed result: after any
  history of calls since construction in which no \<^verbatim>\<open>simulate\<close> returned, both raise
  AttributeError (the attribute \<^verbatim>\<open>results\<close> does not exist yet).
\<close>

theorem accessors_fail_before_simulate:
  assumes "SIRModel_init b g ic = Inr self"
    and "\<not> simulate_succeeded odeint self cs"
  shows "exec odeint (run odeint self cs) (Plot_results t)
           = (Inl AttributeError, run odeint self cs)
       \<and> exec odeint (run odeint self cs) Plot_phase_portrait
           = (Inl AttributeError, run odeint self cs)"
proof -
  have "results self = None"
    using assms(1) by (auto simp: SIRModel_init_def)
  then have "results (run odeint self cs) = None"
    using assms(2) by (rule results_run_None)
  then show ?thesis
    by (simp add: plot_results_def plot_phase_portrait_def)
qed

theorem accessors_fail_before_simulate_witness:
  "exec failing_solver
     (run failing_solver
        \<lparr>beta = 2, gamma = 1, initial_conditions = [1/2, 1/2, 0], results = None\<rparr>
        [Simulate [0, 1], Plot_phase_portrait])
     (Plot_results [0, 1])
   = (Inl AttributeError,
      \<lparr>beta = 2, gamma = 1, initial_conditions = [1/2, 1/2, 0], results = None\<rparr>)"
proof -
  let ?m = "\<lparr>beta = 2, gamma = 1, initial_conditions = [1/2, 1/2, 0], results = None\<rparr>"
  have init: "SIRModel_init 2 1 [1/2, 1/2, 0] = Inr ?m"
    by (simp add: SIRModel_init_def)
  have no: "\<not> simulate_succeeded failing_solver ?m [Simulate [0, 1], Plot_phase_portrait]"
    by (simp add: simulate_def failing_solver_def)
  have same: "run failing_solver ?m [Simulate [0, 1], Plot_phase_portrait] = ?m"
    by (simp add: simulate_def failing_solver_def)
  from accessors_fail_before_simulate [OF init no, of "[0, 1]"] same
  show ?thesis by simp
qed



text \<open>
  Claim C9. The parameters \<beta>, \<gamma> and the initial conditions are never mutated after
  construction by any operation; \<^verbatim>\<open>simulate\<close> modifies only the cached trajectory, and
  each new \<^verbatim>\<open>simulate\<close> call replaces the trajectory cached before in full. The first
  three conjuncts are about any history of calls; the fourth says that the instance
  after \<^verbatim>\<open>simulate\<close> differs from the one before in \<^verbatim>\<open>results\<close> at most; the fifth
  that after a call in which the solver returned, the new instance holds the solver's
  output and nothing of the old trajectory, whatever that was.
\<close>

theorem parameters_never_mutated:
  "beta (run odeint self cs) = beta self
   \<and> gamma (run odeint self cs) = gamma self
   \<and> initial_conditions (run odeint self cs) = initial_conditions self
   \<and> (\<exists>r. snd (simulate odeint self t) = self\<lparr>results := r\<rparr>)
   \<and> (\<forall>traj old. odeint (sir_equations self) (initial_conditions self) t = Inr traj \<longrightarrow>
         simulate odeint (self\<lparr>results := old\<rparr>) t = (Inr (), self\<lparr>results := Some traj\<rparr>))"
  using run_fields [of odeint self cs] simulate_only_results [of odeint self t]
  by (simp add: simulate_replaces)

theorem parameters_never_mutated_witness:
  "beta (run euler \<lparr>beta = 2, gamma = 1, initial_conditions = [1/2, 1/2, 0], results = None\<rparr>
           [Simulate [0, 1], Plot_phase_portrait, Simulate [0, 2]]) = 2
   \<and> simulate euler
        \<lparr>beta = 2, gamma = 1, initial_conditions = [1/2, 1/2, 0], results = Some [[9, 9, 9]]\<rparr>
        [0, 1]
      = (Inr (),
         \<lparr>beta = 2, gamma = 1, initial_conditions = [1/2, 1/2, 0],
          results = Some [[1/2, 1/2, 0], [0, 1/2, 1/2]]\<rparr>)"
proof -
  let ?m = "\<lparr>beta = 2, gamma = 1, initial_conditions = [1/2, 1/2, 0], results = None\<rparr>"
  note th = parameters_never_mutated
    [of euler ?m "[Simulate [0, 1], Plot_phase_portrait, Simulate [0, 2]]" "[0, 1]"]
  have solved: "euler (sir_equations ?m) (initial_conditions ?m) [0, 1]
                  = Inr [[1/2, 1/2, 0], [0, 1/2, 1/2]]"
    by (simp add: euler_def sir_equations_three)
  from th have "beta (run euler ?m [Simulate [0, 1], Plot_phase_portrait, Simulate [0, 2]]) = 2"
    by simp
  moreover from th solved
  have "simulate euler (?m\<lparr>results := Some [[9, 9, 9]]\<rparr>) [0, 1]
          = (Inr (), ?m\<lparr>results := Some [[1/2, 1/2, 0], [0, 1/2, 1/2]]\<rparr>)"
    by blast
  ultimately show ?thesis by simp
qed

text \<open>
  Claim C4. For a strictly increasing time grid of length n \<ge> 1, \<^verbatim>\<open>simulate\<close> produces a
  trajectory with exactly one state vector per time point (n rows), and its first point
  is the initial conditions supplied at construction. \<^verbatim>\<open>simulate\<close> stores the
  solver's output as it is and passes the stored initial conditions and the grid on as
  they are, so the shape of the trajectory is the one the solver promises.
\<close>

theorem trajectory_has_one_row_per_time_point:
  assumes "odeint_contract odeint"
    and "SIRModel_init b g ic = Inr self"
    and "t \<noteq> []" and "sorted_wrt (<) t"
    and "simulate odeint (run odeint self cs) t = (Inr (), self')"
  shows "\<exists>traj. results self' = Some traj \<and> length traj = length t \<and> hd traj = ic"
proof -
  let ?m = "run odeint self cs"
  have ic: "initial_conditions ?m = ic"
    using assms(2) run_fields [of odeint self cs] by (auto simp: SIRModel_init_def)
  from assms(5) obtain traj
    where solved: "odeint (sir_equations ?m) (initial_conditions ?m) t = Inr traj"
      and stored: "self' = ?m\<lparr>results := Some traj\<rparr>"
    by (auto simp: simulate_def split: sum.splits)
  from assms(1,3,4) solved have "length traj = length t \<and> hd traj = initial_conditions ?m"
    unfolding odeint_contract_def by blast
  with stored ic show ?thesis by simp
qed

theorem trajectory_has_one_row_per_time_point_witness:
  "\<exists>traj. results (snd (simulate euler
       \<lparr>beta = 2, gamma = 1, initial_conditions = [1/2, 1/2, 0], results = None\<rparr> [0, 1, 2]))
       = Some traj
     \<and> length traj = length [0, 1, 2 :: real] \<and> hd traj = [1/2, 1/2, 0]"
proof -
  let ?m = "\<lparr>beta = 2, gamma = 1, initial_conditions = [1/2, 1/2, 0], results = None\<rparr>"
  have init: "SIRModel_init 2 1 [1/2, 1/2, 0] = Inr ?m"
    by (simp add: SIRModel_init_def)
  have grid: "[0, 1, 2 :: real] \<noteq> []" "sorted_wrt (<) [0, 1, 2 :: real]"
    by simp_all
  have ok: "simulate euler (run euler ?m []) [0, 1, 2]
              = (Inr (), snd (simulate euler ?m [0, 1, 2]))"
    by (simp add: simulate_def euler_def sir_equations_three)
  from trajectory_has_one_row_per_time_point [OF euler_contract init grid ok]
  show ?thesis .
qed

end
